theory Spec2Isabelle
  imports Complex_Main
begin

section \<open>Conventions of the embedding\<close>

text \<open>
  Python floats are idealised as real numbers: rounding, \<^verbatim>\<open>nan\<close> and a quotient that
  overflows to an infinity are not represented; the literal \<^verbatim>\<open>float('inf')\<close> is, and so
  are the exceptions of the float operators (\<^verbatim>\<open>ZeroDivisionError\<close> of \<^verbatim>\<open>/\<close>,
  \<^verbatim>\<open>OverflowError\<close> of \<^verbatim>\<open>**\<close>). Exceptions are values: a computation that can
  raise has a result of type \<open>py_error + 'a\<close>.
  A dictionary is an association list with distinct keys in insertion order.
  Dates are day numbers, without time zones. A data frame is the list of its rows, each
  the index date and the \<^verbatim>\<open>Close\<close> price, the only column the engine reads.
\<close>

datatype py_error =
  ZeroDivisionError | KeyError | IndexError | OverflowError | AttributeError | FetchError

type_synonym ticker = string
type_synonym date = int
type_synonym dataframe = "(date \<times> real) list"

text \<open>\<^verbatim>\<open>d[k] = v\<close>: an existing key keeps its place, a new key goes last.\<close>

fun dict_set :: "'k \<Rightarrow> 'v \<Rightarrow> ('k \<times> 'v) list \<Rightarrow> ('k \<times> 'v) list" where
  "dict_set k v [] = [(k, v)]"
| "dict_set k v ((k', v') # kvs) =
     (if k = k' then (k, v) # kvs else (k', v') # dict_set k v kvs)"

text \<open>Python's float division raises on a zero divisor.\<close>

definition py_div :: "real \<Rightarrow> real \<Rightarrow> py_error + real" where
  "py_div a b = (if b = 0 then Inl ZeroDivisionError else Inr (a / b))"

text \<open>
  Python's float power \<^verbatim>\<open>b ** e\<close>, used by the engine with a positive exponent only.
  An integral exponent gives the plain power for every base; a positive base gives
  \<open>b powr e\<close>; \<^verbatim>\<open>0.0 ** e\<close> is \<open>0\<close>. A result outside the float range (from
  \<open>2 ^ 1024\<close> on, rounding aside) raises \<^verbatim>\<open>OverflowError\<close>. For a negative base
  and a fractional exponent Python answers with a complex number: the model has no
  value for it (\<open>b powr e\<close> is then unspecified), and nothing below is proved about it.
\<close>

definition py_pow :: "real \<Rightarrow> real \<Rightarrow> py_error + real" where
  "py_pow b e =
     (let r = (if 0 \<le> e \<and> e = of_int \<lfloor>e\<rfloor> then b ^ nat \<lfloor>e\<rfloor> else b powr e)
      in if 2 ^ 1024 \<le> \<bar>r\<bar> then Inl OverflowError else Inr r)"

text \<open>A list comprehension whose elements can raise: the first exception wins.\<close>

fun sequence :: "('e + 'a) list \<Rightarrow> 'e + 'a list" where
  "sequence [] = Inr []"
| "sequence (x # xs) =
     (case x of
        Inl e \<Rightarrow> Inl e
      | Inr v \<Rightarrow> (case sequence xs of Inl e \<Rightarrow> Inl e | Inr vs \<Rightarrow> Inr (v # vs)))"

text \<open>
  numpy's statistics: mean, population variance and standard deviation, and the sample
  covariance that \<^verbatim>\<open>np.cov(xs, ys)[0][1]\<close> reads. On a single observation numpy's
  covariance is \<^verbatim>\<open>nan\<close>; the engine never uses it there, because the variance of a
  single observation is \<open>0\<close>.
\<close>

definition np_mean :: "real list \<Rightarrow> real" where
  "np_mean xs = sum_list xs / real (length xs)"

definition np_var :: "real list \<Rightarrow> real" where
  "np_var xs = np_mean (map (\<lambda>x. (x - np_mean xs)\<^sup>2) xs)"

definition np_std :: "real list \<Rightarrow> real" where
  "np_std xs = sqrt (np_var xs)"

definition np_cov :: "real list \<Rightarrow> real list \<Rightarrow> real" where
  "np_cov xs ys =
     sum_list (map2 (\<lambda>x y. (x - np_mean xs) * (y - np_mean ys)) xs ys)
       / (real (length xs) - 1)"

section \<open>Market data fetching (fetch\_market\_data.py)\<close>

text \<open>
  \<^verbatim>\<open>fetch_historical_data(tickers, period, interval)\<close>. The call
  \<^verbatim>\<open>yf.Ticker(ticker).history(period=period, interval=interval)\<close> belongs to a
  third-party library and is the parameter \<open>history\<close>: it raises (\<open>Inl\<close>) or returns
  a data frame. \<^verbatim>\<open>get_all_tickers()\<close> reads a configuration file and is the parameter
  \<open>all_tickers\<close>. The period string \<^verbatim>\<open>"<n>d"\<close> is the number \<open>n\<close>.
  \<open>fetch_loop\<close> is the \<^verbatim>\<open>for ticker in tickers\<close> loop with its
  \<^verbatim>\<open>try\<close>/\<^verbatim>\<open>except Exception\<close> body.
\<close>

type_synonym yf_history = "ticker \<Rightarrow> int \<Rightarrow> string \<Rightarrow> py_error + dataframe"

fun fetch_loop ::
  "(ticker \<Rightarrow> py_error + dataframe) \<Rightarrow> ticker list \<Rightarrow> (ticker \<times> dataframe) list
   \<Rightarrow> (ticker \<times> dataframe) list" where
  "fetch_loop fetch_one [] results = results"
| "fetch_loop fetch_one (ticker # rest) results =
     (case fetch_one ticker of
        Inl e \<Rightarrow> fetch_loop fetch_one rest results
      | Inr hist \<Rightarrow>
          if hist = [] then fetch_loop fetch_one rest results
          else fetch_loop fetch_one rest (dict_set ticker hist results))"

definition fetch_historical_data ::
  "ticker list \<Rightarrow> yf_history \<Rightarrow> ticker list option \<Rightarrow> int \<Rightarrow> string
   \<Rightarrow> (ticker \<times> dataframe) list" where
  "fetch_historical_data all_tickers history tickers period interval =
     fetch_loop (\<lambda>ticker. history ticker period interval)
       (case tickers of None \<Rightarrow> all_tickers | Some ts \<Rightarrow> ts) []"

section \<open>The ledger and the decision agent, as the engine sees them\<close>

text \<open>
  \<^verbatim>\<open>Portfolio\<close> (portfolio/portfolio.py) and \<^verbatim>\<open>TradingAgent\<close> are collaborators
  outside the two source files. The engine is modelled over any ledger state \<open>'l\<close>
  with the operations it calls, and over any decision function.
\<close>

record summary =
  total_value :: real
  cash :: real
  positions_value :: real
  total_return_pct :: real
  num_positions :: nat

record daily_result = summary +
  date :: date

record ('l, 'p, 't) portfolio_ops =
  update_prices :: "(ticker \<times> real) list \<Rightarrow> 'l \<Rightarrow> 'l"
  buy :: "ticker \<Rightarrow> real \<Rightarrow> real \<Rightarrow> 'l \<Rightarrow> 'l"
  sell :: "ticker \<Rightarrow> real \<Rightarrow> 'l \<Rightarrow> 'l"
  positions :: "'l \<Rightarrow> (ticker \<times> 'p) list"
  trades :: "'l \<Rightarrow> 't list"
  portfolio_total_value :: "'l \<Rightarrow> real"
  get_summary :: "'l \<Rightarrow> summary"

text \<open>
  An action of a decision: \<^verbatim>\<open>action.get("ticker")\<close>, \<^verbatim>\<open>action.get("action")\<close>,
  \<^verbatim>\<open>action.get("pct", 0)\<close>. The agent stands for
  \<^verbatim>\<open>calculate_indicators_for_date\<close> followed by \<^verbatim>\<open>agent.get_trading_decision\<close>
  and \<^verbatim>\<open>decision.get("actions", [])\<close>.
\<close>

record action =
  act_ticker :: "ticker option"
  act_action :: "string option"
  act_pct :: "real option"

type_synonym trading_agent =
  "(ticker \<times> dataframe) list \<Rightarrow> date \<Rightarrow> summary \<Rightarrow> action list"

text \<open>
  The calls a run makes on its ledger are observed by wrapping the ledger: \<open>logged ops\<close>
  behaves as \<open>ops\<close> and appends every mutating call to a log.
\<close>

datatype ledger_call =
  UpdatePrices "(ticker \<times> real) list" | Buy ticker real real | Sell ticker real

definition logged ::
  "('l, 'p, 't) portfolio_ops \<Rightarrow> ('l \<times> ledger_call list, 'p, 't) portfolio_ops" where
  "logged ops =
     \<lparr>update_prices = (\<lambda>ps (l, calls). (update_prices ops ps l, calls @ [UpdatePrices ps])),
      buy = (\<lambda>t pct price (l, calls). (buy ops t pct price l, calls @ [Buy t pct price])),
      sell = (\<lambda>t price (l, calls). (sell ops t price l, calls @ [Sell t price])),
      positions = (\<lambda>(l, calls). positions ops l),
      trades = (\<lambda>(l, calls). trades ops l),
      portfolio_total_value = (\<lambda>(l, calls). portfolio_total_value ops l),
      get_summary = (\<lambda>(l, calls). get_summary ops l)\<rparr>"

section \<open>The backtest engine (backtest.py)\<close>

record 'l engine =
  start_date :: date
  end_date :: date
  initial_capital :: real
  tickers :: "ticker list"
  rebalance_frequency :: string
  portfolio :: "'l option"
  results :: "daily_result list"

text \<open>\<^verbatim>\<open>BacktestEngine.__init__\<close>; \<^verbatim>\<open>tickers or [...]\<close> replaces \<^verbatim>\<open>None\<close> and the empty list.\<close>

definition BacktestEngine ::
  "date \<Rightarrow> date \<Rightarrow> real \<Rightarrow> ticker list option \<Rightarrow> string \<Rightarrow> 'l engine" where
  "BacktestEngine start end capital ts frequency =
     \<lparr>start_date = start, end_date = end, initial_capital = capital,
      tickers = (case ts of None \<Rightarrow> [''SPY'', ''QQQ'', ''GLD'']
                 | Some [] \<Rightarrow> [''SPY'', ''QQQ'', ''GLD'']
                 | Some (t # rest) \<Rightarrow> t # rest),
      rebalance_frequency = frequency, portfolio = None, results = []\<rparr>"

definition in_window :: "'l engine \<Rightarrow> date \<Rightarrow> bool" where
  "in_window self d = (start_date self \<le> d \<and> d \<le> end_date self)"

text \<open>\<^verbatim>\<open>BacktestEngine.fetch_historical_data\<close>: fetch, then keep the rows of the window
  and the tickers that still have rows.\<close>

definition engine_fetch_historical_data ::
  "ticker list \<Rightarrow> yf_history \<Rightarrow> 'l engine \<Rightarrow> (ticker \<times> dataframe) list" where
  "engine_fetch_historical_data all_tickers history self =
     (let period = (end_date self - start_date self) + 60;
          data = fetch_historical_data all_tickers history (Some (tickers self)) period ''1d''
      in fold (\<lambda>(ticker, df) filtered_data.
                 let df' = filter (\<lambda>(d, c). in_window self d) df
                 in if df' \<noteq> [] then dict_set ticker df' filtered_data else filtered_data)
           data [])"

text \<open>\<^verbatim>\<open>_get_benchmark_returns\<close>. The closes are numpy values, so the division does
  not raise; a zero close gives \<^verbatim>\<open>inf\<close> or \<^verbatim>\<open>nan\<close> there, which the reals do not
  represent.\<close>

definition get_benchmark_returns ::
  "'l engine \<Rightarrow> (ticker \<times> dataframe) list \<Rightarrow> ticker \<Rightarrow> real list" where
  "get_benchmark_returns self data benchmark_ticker =
     (case map_of data benchmark_ticker of
        None \<Rightarrow> []
      | Some df \<Rightarrow>
          let closes = map snd (filter (\<lambda>(d, c). in_window self d) df)
          in map (\<lambda>i. (closes ! i - closes ! (i - 1)) / closes ! (i - 1))
               [1..<length closes])"

text \<open>\<^verbatim>\<open>_get_trading_dates\<close>: the dates of the first ticker, inside the window.\<close>

definition get_trading_dates ::
  "'l engine \<Rightarrow> (ticker \<times> dataframe) list \<Rightarrow> py_error + date list" where
  "get_trading_dates self data =
     (case data of
        [] \<Rightarrow> Inl IndexError
      | (first_ticker, df) # _ \<Rightarrow> Inr (filter (in_window self) (map fst df)))"

text \<open>\<^verbatim>\<open>_get_prices_for_date\<close>: the last close of the rows of exactly that date.\<close>

definition get_prices_for_date ::
  "(ticker \<times> dataframe) list \<Rightarrow> date \<Rightarrow> (ticker \<times> real) list" where
  "get_prices_for_date data current_date =
     fold (\<lambda>(ticker, df) prices.
             let rows = filter (\<lambda>(d, c). d = current_date) df
             in if rows \<noteq> [] then dict_set ticker (snd (last rows)) prices else prices)
       data []"

definition should_rebalance :: "'l engine \<Rightarrow> nat \<Rightarrow> date \<Rightarrow> bool" where
  "should_rebalance self day_index current_date =
     (if rebalance_frequency self = ''daily'' then True
      else if rebalance_frequency self = ''weekly'' then day_index mod 5 = 0
      else False)"

text \<open>\<^verbatim>\<open>_execute_llm_strategy\<close>, acting on the ledger.\<close>

definition execute_action ::
  "('l, 'p, 't) portfolio_ops \<Rightarrow> (ticker \<times> real) list \<Rightarrow> action \<Rightarrow> 'l \<Rightarrow> 'l" where
  "execute_action ops current_prices a l =
     (case act_ticker a of
        None \<Rightarrow> l
      | Some ticker \<Rightarrow>
          (case map_of current_prices ticker of
             None \<Rightarrow> l
           | Some price \<Rightarrow>
               if act_action a = Some ''buy''
               then buy ops ticker (case act_pct a of None \<Rightarrow> 0 | Some pct \<Rightarrow> pct) price l
               else if act_action a = Some ''sell'' then sell ops ticker price l
               else l))"

definition execute_llm_strategy ::
  "('l, 'p, 't) portfolio_ops \<Rightarrow> trading_agent \<Rightarrow> (ticker \<times> dataframe) list \<Rightarrow> date
   \<Rightarrow> (ticker \<times> real) list \<Rightarrow> 'l \<Rightarrow> 'l" where
  "execute_llm_strategy ops agent data current_date current_prices l =
     (let portfolio_summary = get_summary ops l;
          actions = agent data current_date portfolio_summary
      in fold (execute_action ops current_prices) actions l)"

text \<open>\<^verbatim>\<open>_execute_equal_weight_strategy\<close>.\<close>

definition execute_equal_weight_strategy ::
  "('l, 'p, 't) portfolio_ops \<Rightarrow> (ticker \<times> real) list \<Rightarrow> 'l \<Rightarrow> 'l" where
  "execute_equal_weight_strategy ops current_prices l =
     (if positions ops l \<noteq> [] then l
      else let n_tickers = length current_prices
           in if n_tickers = 0 then l
              else let pct_per_ticker = 90 / real n_tickers
                   in fold (\<lambda>(ticker, price). buy ops ticker pct_per_ticker price)
                        current_prices l)"

text \<open>\<^verbatim>\<open>_record_daily_result\<close>.\<close>

definition record_daily_result ::
  "('l, 'p, 't) portfolio_ops \<Rightarrow> 'l \<Rightarrow> date \<Rightarrow> daily_result list \<Rightarrow> daily_result list" where
  "record_daily_result ops l current_date rs =
     (let s = get_summary ops l
      in rs @ [\<lparr>total_value = total_value s, cash = cash s,
                 positions_value = positions_value s,
                 total_return_pct = total_return_pct s,
                 num_positions = num_positions s, date = current_date\<rparr>])"

text \<open>One iteration of the simulation loop of \<^verbatim>\<open>run_backtest\<close>, and the loop over
  \<^verbatim>\<open>enumerate(trading_dates)\<close>. The state is the ledger and \<^verbatim>\<open>self.results\<close>.\<close>

definition simulate_day ::
  "('l, 'p, 't) portfolio_ops \<Rightarrow> trading_agent \<Rightarrow> 'l engine \<Rightarrow> bool \<Rightarrow> string
   \<Rightarrow> (ticker \<times> dataframe) list \<Rightarrow> nat \<times> date \<Rightarrow> 'l \<times> daily_result list
   \<Rightarrow> 'l \<times> daily_result list" where
  "simulate_day ops agent self use_llm strategy data day st =
     (case (day, st) of ((i, current_date), (l, rs)) \<Rightarrow>
        let current_prices = get_prices_for_date data current_date;
            l1 = update_prices ops current_prices l;
            l2 = (if should_rebalance self i current_date
                  then if strategy = ''llm'' \<and> use_llm
                       then execute_llm_strategy ops agent data current_date current_prices l1
                       else if strategy = ''equal_weight''
                       then execute_equal_weight_strategy ops current_prices l1
                       else l1
                  else l1)
        in (l2, record_daily_result ops l2 current_date rs))"

definition simulation_loop ::
  "('l, 'p, 't) portfolio_ops \<Rightarrow> trading_agent \<Rightarrow> 'l engine \<Rightarrow> bool \<Rightarrow> string
   \<Rightarrow> (ticker \<times> dataframe) list \<Rightarrow> date list \<Rightarrow> 'l \<times> daily_result list
   \<Rightarrow> 'l \<times> daily_result list" where
  "simulation_loop ops agent self use_llm strategy data trading_dates st =
     fold (simulate_day ops agent self use_llm strategy data) (enumerate 0 trading_dates) st"

section \<open>The metrics engine\<close>

datatype pyfloat = Finite real | Infinity

record metrics =
  total_return :: real
  annualized_return :: real
  volatility :: real
  sharpe_ratio :: real
  sortino_ratio :: real
  max_drawdown :: real
  calmar_ratio :: real
  omega_ratio :: pyfloat
  win_rate :: real
  profit_factor :: pyfloat
  num_trades :: nat
  beta :: real
  alpha :: real
  equity_curve :: "real list"
  drawdown_curve :: "real list"
  daily_returns :: "real list"

text \<open>The per-step returns: the list comprehension over \<^verbatim>\<open>range(1, len(values))\<close>.\<close>

definition step_returns :: "real list \<Rightarrow> py_error + real list" where
  "step_returns values =
     sequence (map (\<lambda>i. py_div (values ! i - values ! (i - 1)) (values ! (i - 1)))
                 [1..<length values])"

text \<open>The running-peak loop, with its three variables \<^verbatim>\<open>peak\<close>,
  \<^verbatim>\<open>max_drawdown\<close> and \<^verbatim>\<open>drawdowns\<close>.\<close>

fun drawdown_loop ::
  "real list \<Rightarrow> real \<Rightarrow> real \<Rightarrow> real list \<Rightarrow> py_error + (real \<times> real list)" where
  "drawdown_loop [] peak max_dd drawdowns = Inr (max_dd, drawdowns)"
| "drawdown_loop (v # rest) peak max_dd drawdowns =
     (let peak' = (if v > peak then v else peak)
      in case py_div (peak' - v) peak' of
           Inl e \<Rightarrow> Inl e
         | Inr drawdown \<Rightarrow>
             drawdown_loop rest peak' (max max_dd drawdown) (drawdowns @ [drawdown]))"

text \<open>The beta and alpha block, behind its gate
  \<^verbatim>\<open>if benchmark_returns and len(benchmark_returns) == len(returns)\<close>.\<close>

definition beta_alpha ::
  "real list \<Rightarrow> real list option \<Rightarrow> real \<Rightarrow> real \<Rightarrow> real \<times> real" where
  "beta_alpha returns benchmark_returns annualized risk_free_rate =
     (case benchmark_returns of
        None \<Rightarrow> (0, 0)
      | Some bs \<Rightarrow>
          if bs \<noteq> [] \<and> length bs = length returns
          then let covariance = np_cov returns bs;
                   benchmark_variance = np_var bs;
                   b = (if benchmark_variance > 0 then covariance / benchmark_variance else 0);
                   a = annualized - (risk_free_rate + b * (np_mean bs * 252 - risk_free_rate))
               in (b, a)
          else (0, 0))"

text \<open>\<^verbatim>\<open>_calculate_metrics\<close>. \<open>Inr None\<close> is the empty dictionary returned for an
  empty result list. The statements that can raise are, in the order of the source: the
  returns, the total return, the power of the annualised return, the drawdown loop and,
  when the dictionary is built, \<^verbatim>\<open>self.portfolio.trades\<close>. \<open>metrics_report\<close> holds
  the statements between them, which cannot raise, in the order of the source.\<close>

definition metrics_report ::
  "real list \<Rightarrow> real list \<Rightarrow> real \<Rightarrow> real \<Rightarrow> real \<Rightarrow> real list \<Rightarrow> nat \<Rightarrow> real list option
   \<Rightarrow> metrics" where
  "metrics_report values returns total_ret annualized max_dd drawdowns n_trades
       benchmark_returns =
     (let vol = (if returns \<noteq> [] then np_std returns * sqrt 252 else 0);
          risk_free_rate = 0.02;
          sharpe = (if vol > 0 then (annualized - risk_free_rate) / vol else 0);
          calmar = (if max_dd > 0 then annualized / max_dd else 0);
          gains = sum_list (filter (\<lambda>r. r > 0) returns);
          losses = sum_list (map abs (filter (\<lambda>r. r < 0) returns));
          omega = (if losses > 0 then Finite (gains / losses) else Infinity);
          profitable_days = length (filter (\<lambda>r. r > 0) returns);
          win = (if returns \<noteq> [] then real profitable_days / real (length returns) else 0);
          gross_profit = sum_list (filter (\<lambda>r. r > 0) returns);
          gross_loss = sum_list (map abs (filter (\<lambda>r. r < 0) returns));
          pf = (if gross_loss > 0 then Finite (gross_profit / gross_loss) else Infinity);
          downside_returns = filter (\<lambda>r. r < 0) returns;
          downside_std =
            (if downside_returns \<noteq> [] then np_std downside_returns * sqrt 252 else 0);
          sortino =
            (if downside_std > 0 then (annualized - risk_free_rate) / downside_std else 0);
          ba = beta_alpha returns benchmark_returns annualized risk_free_rate
      in \<lparr>total_return = total_ret, annualized_return = annualized,
          volatility = vol, sharpe_ratio = sharpe, sortino_ratio = sortino,
          max_drawdown = max_dd, calmar_ratio = calmar, omega_ratio = omega,
          win_rate = win, profit_factor = pf, num_trades = n_trades,
          beta = fst ba, alpha = snd ba,
          equity_curve = values, drawdown_curve = drawdowns, daily_returns = returns\<rparr>)"

definition calculate_metrics ::
  "('l, 'p, 't) portfolio_ops \<Rightarrow> 'l engine \<Rightarrow> real list option \<Rightarrow> py_error + metrics option"
  where
  "calculate_metrics ops self benchmark_returns =
     (if results self = [] then Inr None
      else
        let values = map total_value (results self) in
        case step_returns values of
          Inl e \<Rightarrow> Inl e
        | Inr returns \<Rightarrow>
        (case py_div (last values) (initial_capital self) of
           Inl e \<Rightarrow> Inl e
         | Inr growth \<Rightarrow>
        let total_ret = growth - 1;
            days = length (results self) in
        (case (if days > 0
               then (case py_pow (1 + total_ret) (365 / real days) of
                       Inl e \<Rightarrow> Inl e
                     | Inr p \<Rightarrow> Inr (p - 1))
               else Inr 0) of
           Inl e \<Rightarrow> Inl e
         | Inr annualized \<Rightarrow>
        (case drawdown_loop values (initial_capital self) 0 [] of
           Inl e \<Rightarrow> Inl e
         | Inr (max_dd, drawdowns) \<Rightarrow>
        (case portfolio self of
           None \<Rightarrow> Inl AttributeError
         | Some l \<Rightarrow>
             Inr (Some (metrics_report values returns total_ret annualized max_dd drawdowns
                          (length (trades ops l)) benchmark_returns)))))))"

text \<open>The dictionary \<^verbatim>\<open>run_backtest\<close> returns; its metric entries are read from the
  metrics dictionary by key.\<close>

record backtest_result =
  out_start_date :: date
  out_end_date :: date
  out_strategy :: string
  out_initial_capital :: real
  final_value :: real
  report :: metrics
  daily_results :: "daily_result list"

text \<open>\<^verbatim>\<open>run_backtest\<close>. \<open>new_portfolio\<close> is the constructor call
  \<^verbatim>\<open>Portfolio(state_file=..., data_dir=...)\<close>, whose file name is made of the strategy
  and the start date. The result \<open>None\<close> is the empty dictionary; the engine is
  returned with its updated \<^verbatim>\<open>portfolio\<close> and \<^verbatim>\<open>results\<close>.
  \<open>backtest_on_data\<close> is the body of \<^verbatim>\<open>run_backtest\<close> from the test
  \<^verbatim>\<open>if not data\<close> on, as a function of the fetched data.\<close>

definition backtest_on_data ::
  "('l, 'p, 't) portfolio_ops \<Rightarrow> (string \<Rightarrow> date \<Rightarrow> 'l) \<Rightarrow> trading_agent \<Rightarrow> 'l engine
   \<Rightarrow> bool \<Rightarrow> string \<Rightarrow> ticker \<Rightarrow> (ticker \<times> dataframe) list
   \<Rightarrow> py_error + (backtest_result option \<times> 'l engine)" where
  "backtest_on_data ops new_portfolio agent self use_llm strategy benchmark data =
     (if data = [] then Inr (None, self)
      else
        let l0 = new_portfolio strategy (start_date self) in
        case get_trading_dates self data of
          Inl e \<Rightarrow> Inl e
        | Inr trading_dates \<Rightarrow>
            (case simulation_loop ops agent self use_llm strategy data trading_dates
                    (l0, results self) of
               (l, rs) \<Rightarrow>
                 let self' = self\<lparr>portfolio := Some l, results := rs\<rparr>;
                     benchmark_returns = get_benchmark_returns self' data benchmark
                 in case calculate_metrics ops self' (Some benchmark_returns) of
                      Inl e \<Rightarrow> Inl e
                    | Inr None \<Rightarrow> Inl KeyError
                    | Inr (Some m) \<Rightarrow>
                        Inr (Some \<lparr>out_start_date = start_date self,
                                   out_end_date = end_date self,
                                   out_strategy = strategy,
                                   out_initial_capital = initial_capital self,
                                   final_value = portfolio_total_value ops l,
                                   report = m,
                                   daily_results = rs\<rparr>, self')))"

definition run_backtest ::
  "('l, 'p, 't) portfolio_ops \<Rightarrow> (string \<Rightarrow> date \<Rightarrow> 'l) \<Rightarrow> ticker list \<Rightarrow> yf_history
   \<Rightarrow> trading_agent \<Rightarrow> 'l engine \<Rightarrow> bool \<Rightarrow> string \<Rightarrow> ticker
   \<Rightarrow> py_error + (backtest_result option \<times> 'l engine)" where
  "run_backtest ops new_portfolio all_tickers history agent self use_llm strategy benchmark =
     backtest_on_data ops new_portfolio agent self use_llm strategy benchmark
       (engine_fetch_historical_data all_tickers history self)"

section \<open>A ledger to run the engine on\<close>

text \<open>
  Modelled from the spec: the ledger (\<^verbatim>\<open>Portfolio\<close>, portfolio/portfolio.py) is not
  among the sources. The spec gives it cash, open positions and a trade history, changed
  only through \<^verbatim>\<open>update_prices\<close>, \<^verbatim>\<open>buy(ticker, pct_of_portfolio, price)\<close> and
  \<^verbatim>\<open>sell(ticker, price)\<close>; a fresh ledger holds its initial capital and no position;
  marking to market renews the prices of the positions held and issues no trade; a buy
  of \<open>pct\<close> puts \<open>pct\<close> percent of the portfolio value into the asset (30 percent of
  10000 is a notional of 3000); a sell closes the position. A position is the pair of
  its number of shares and its last price. It serves to run the engine on concrete
  inputs.
\<close>

record paper_ledger =
  paper_cash :: real
  paper_capital :: real
  paper_positions :: "(ticker \<times> real \<times> real) list"
  paper_trades :: "ledger_call list"

definition new_paper :: "real \<Rightarrow> paper_ledger" where
  "new_paper capital =
     \<lparr>paper_cash = capital, paper_capital = capital, paper_positions = [], paper_trades = []\<rparr>"

definition paper_positions_value :: "paper_ledger \<Rightarrow> real" where
  "paper_positions_value l =
     sum_list (map (\<lambda>(t, shares, price). shares * price) (paper_positions l))"

definition paper_value :: "paper_ledger \<Rightarrow> real" where
  "paper_value l = paper_cash l + paper_positions_value l"

definition paper_update_prices :: "(ticker \<times> real) list \<Rightarrow> paper_ledger \<Rightarrow> paper_ledger" where
  "paper_update_prices ps l =
     l\<lparr>paper_positions :=
         map (\<lambda>(t, shares, price).
                (t, shares, case map_of ps t of None \<Rightarrow> price | Some p \<Rightarrow> p))
           (paper_positions l)\<rparr>"

definition paper_buy :: "ticker \<Rightarrow> real \<Rightarrow> real \<Rightarrow> paper_ledger \<Rightarrow> paper_ledger" where
  "paper_buy t pct price l =
     (let notional = pct / 100 * paper_value l;
          held = (case map_of (paper_positions l) t of None \<Rightarrow> 0 | Some (shares, p) \<Rightarrow> shares)
      in l\<lparr>paper_cash := paper_cash l - notional,
           paper_positions := dict_set t (held + notional / price, price) (paper_positions l),
           paper_trades := paper_trades l @ [Buy t pct price]\<rparr>)"

definition paper_sell :: "ticker \<Rightarrow> real \<Rightarrow> paper_ledger \<Rightarrow> paper_ledger" where
  "paper_sell t price l =
     (case map_of (paper_positions l) t of
        None \<Rightarrow> l
      | Some (shares, p) \<Rightarrow>
          l\<lparr>paper_cash := paper_cash l + shares * price,
            paper_positions := filter (\<lambda>(t', pos). t' \<noteq> t) (paper_positions l),
            paper_trades := paper_trades l @ [Sell t price]\<rparr>)"

definition paper_summary :: "paper_ledger \<Rightarrow> summary" where
  "paper_summary l =
     \<lparr>total_value = paper_value l, cash = paper_cash l,
      positions_value = paper_positions_value l,
      total_return_pct = (paper_value l / paper_capital l - 1) * 100,
      num_positions = length (paper_positions l)\<rparr>"

definition paper_ops :: "(paper_ledger, real \<times> real, ledger_call) portfolio_ops" where
  "paper_ops =
     \<lparr>update_prices = paper_update_prices, buy = paper_buy, sell = paper_sell,
      positions = paper_positions, trades = paper_trades,
      portfolio_total_value = paper_value, get_summary = paper_summary\<rparr>"

section \<open>The drawdown curve in the words of the specification\<close>

text \<open>
  The running peak of the specification, which starts at the initial capital, and the
  drawdown at a day; the drawdown loop of the source is compared with them.
\<close>

definition spec_peak :: "real \<Rightarrow> real list \<Rightarrow> nat \<Rightarrow> real" where
  "spec_peak capital V i = Max (insert capital (set (take (Suc i) V)))"

definition spec_drawdown :: "real \<Rightarrow> real list \<Rightarrow> nat \<Rightarrow> real" where
  "spec_drawdown capital V i = (spec_peak capital V i - V ! i) / spec_peak capital V i"

section \<open>Example inputs\<close>

abbreviation spy_engine :: "date \<Rightarrow> date \<Rightarrow> string \<Rightarrow> paper_ledger engine" where
  "spy_engine start end frequency \<equiv> BacktestEngine start end 10000 (Some [''SPY'']) frequency"

abbreviation no_agent :: trading_agent where
  "no_agent \<equiv> (\<lambda>data d s. [])"

abbreviation day :: "real \<Rightarrow> date \<Rightarrow> daily_result" where
  "day v d \<equiv> \<lparr>total_value = v, cash = v, positions_value = 0, total_return_pct = 0,
               num_positions = 0, date = d\<rparr>"

abbreviation recorded :: "real \<Rightarrow> daily_result list \<Rightarrow> paper_ledger engine" where
  "recorded capital rs \<equiv>
     (spy_engine 0 10 ''daily'')
       \<lparr>initial_capital := capital, portfolio := Some (new_paper 10000), results := rs\<rparr>"

section \<open>Dictionaries\<close>

lemma map_of_dict_set: "map_of (dict_set k v kvs) = (map_of kvs)(k \<mapsto> v)"
  by (induction kvs) (auto simp: fun_eq_iff)

lemma keys_dict_set: "set (map fst (dict_set k v kvs)) = insert k (set (map fst kvs))"
  by (induction k v kvs rule: dict_set.induct) (simp_all add: insert_commute)

lemma distinct_dict_set:
  "distinct (map fst kvs) \<Longrightarrow> distinct (map fst (dict_set k v kvs))"
proof (induction kvs)
  case Nil
  then show ?case by simp
next
  case (Cons kv kvs)
  obtain k' v' where kv: "kv = (k', v')" by (cases kv)
  from Cons show ?case
    using keys_dict_set [of k v kvs] by (simp add: kv)
qed

lemma dict_set_not_Nil: "dict_set k v kvs \<noteq> []"
  by (cases kvs) (auto split: if_splits)

section \<open>Fetching\<close>

lemma map_of_fetch_loop:
  "map_of (fetch_loop fetch_one ts acc) t =
     (case fetch_one t of
        Inl e \<Rightarrow> map_of acc t
      | Inr hist \<Rightarrow> if t \<in> set ts \<and> hist \<noteq> [] then Some hist else map_of acc t)"
  by (induction ts arbitrary: acc) (auto simp: map_of_dict_set split: sum.splits)

lemma distinct_fetch_loop:
  "distinct (map fst acc) \<Longrightarrow> distinct (map fst (fetch_loop fetch_one ts acc))"
  by (induction ts arbitrary: acc) (auto simp: distinct_dict_set split: sum.splits)

text \<open>
  C9. The dictionary returned by \<^verbatim>\<open>fetch_historical_data\<close> maps a ticker to its data
  frame exactly when the ticker was requested and its fetch returned a non-empty frame;
  a ticker whose fetch raised or returned an empty frame is absent, whatever happened to
  the tickers before and after it. The keys are distinct.
\<close>

theorem fetch_historical_data_mapping:
  "map_of (fetch_historical_data all_tickers history requested period interval) t =
     (if t \<in> set (case requested of None \<Rightarrow> all_tickers | Some ts \<Rightarrow> ts)
      then (case history t period interval of
              Inl e \<Rightarrow> None
            | Inr hist \<Rightarrow> if hist = [] then None else Some hist)
      else None)
   \<and> distinct (map fst (fetch_historical_data all_tickers history requested period interval))"
  by (simp add: fetch_historical_data_def map_of_fetch_loop distinct_fetch_loop
           split: sum.splits)

section \<open>Calls observed on the ledger\<close>

lemma logged_simps:
  "update_prices (logged ops) ps (l, calls) = (update_prices ops ps l, calls @ [UpdatePrices ps])"
  "buy (logged ops) t pct price (l, calls) = (buy ops t pct price l, calls @ [Buy t pct price])"
  "sell (logged ops) t price (l, calls) = (sell ops t price l, calls @ [Sell t price])"
  "positions (logged ops) (l, calls) = positions ops l"
  "trades (logged ops) (l, calls) = trades ops l"
  "portfolio_total_value (logged ops) (l, calls) = portfolio_total_value ops l"
  "get_summary (logged ops) (l, calls) = get_summary ops l"
  by (simp_all add: logged_def)

lemma fold_logged_buy:
  "fold (\<lambda>(t, price). buy (logged ops) t pct price) ps (l, calls) =
     (fold (\<lambda>(t, price). buy ops t pct price) ps l,
      calls @ map (\<lambda>(t, price). Buy t pct price) ps)"
  by (induction ps arbitrary: l calls) (auto simp: logged_simps)

section \<open>The equal-weight strategy\<close>

text \<open>
  C4. Invoked on a rebalance day, the equal-weight strategy issues no call when the
  ledger holds a position, none when the price snapshot is empty, and otherwise exactly
  one buy per asset of the snapshot, in its order, each at its snapshot price and with
  the fraction 90 / n for the n assets of the snapshot. For three assets each fraction is
  30, and the fractions of a non-empty snapshot add up to 90.
\<close>

theorem equal_weight_calls:
  "snd (execute_equal_weight_strategy (logged ops) current_prices (l, calls)) =
     (if positions ops l \<noteq> [] then calls
      else if current_prices = [] then calls
      else calls @ map (\<lambda>(t, price). Buy t (90 / real (length current_prices)) price)
                     current_prices)
   \<and> snd (execute_equal_weight_strategy (logged ops) [(a, pa), (b, pb), (c, pc)] (l, [])) =
     (if positions ops l \<noteq> [] then [] else [Buy a 30 pa, Buy b 30 pb, Buy c 30 pc])
   \<and> real (length current_prices) * (90 / real (length current_prices)) =
     (if current_prices = [] then 0 else 90)"
  by (simp add: execute_equal_weight_strategy_def logged_simps fold_logged_buy Let_def)

text \<open>The example of the specification on the ledger written from it: a capital of 10000
  and three assets at 100 give each asset a notional of 3000 and leave 1000 in cash.\<close>

lemma equal_weight_example:
  "execute_equal_weight_strategy paper_ops [(''A'', 100), (''B'', 100), (''C'', 100)]
     (new_paper 10000) =
   \<lparr>paper_cash = 1000, paper_capital = 10000,
    paper_positions = [(''A'', 30, 100), (''B'', 30, 100), (''C'', 30, 100)],
    paper_trades = [Buy ''A'' 30 100, Buy ''B'' 30 100, Buy ''C'' 30 100]\<rparr>"
  by (simp add: execute_equal_weight_strategy_def paper_ops_def paper_buy_def new_paper_def
        paper_value_def paper_positions_value_def)

section \<open>The simulation loop\<close>

lemma simulate_day_idle:
  assumes "\<not> should_rebalance self i d
           \<or> (strategy \<noteq> ''equal_weight'' \<and> \<not> (strategy = ''llm'' \<and> use_llm))"
  shows "simulate_day ops agent self use_llm strategy data (i, d) (l, rs) =
           (update_prices ops (get_prices_for_date data d) l,
            record_daily_result ops (update_prices ops (get_prices_for_date data d) l) d rs)"
  using assms by (auto simp: simulate_day_def Let_def)

lemma fold_simulate_day_idle:
  assumes "(\<forall>i d. \<not> should_rebalance self i d)
           \<or> (strategy \<noteq> ''equal_weight'' \<and> \<not> (strategy = ''llm'' \<and> use_llm))"
  shows "fst (fold (simulate_day ops agent self use_llm strategy data) (enumerate n ds) (l, rs)) =
           fold (\<lambda>d. update_prices ops (get_prices_for_date data d)) ds l"
proof (induction ds arbitrary: n l rs)
  case Nil
  show ?case by simp
next
  case (Cons d ds)
  from assms have "\<not> should_rebalance self n d
      \<or> (strategy \<noteq> ''equal_weight'' \<and> \<not> (strategy = ''llm'' \<and> use_llm))"
    by blast
  then show ?case
    by (simp add: simulate_day_idle Cons.IH)
qed

lemma fold_logged_update_prices:
  "fold (\<lambda>d. update_prices (logged ops) (f d)) ds (l, calls) =
     (fold (\<lambda>d. update_prices ops (f d)) ds l, calls @ map (\<lambda>d. UpdatePrices (f d)) ds)"
  by (induction ds arbitrary: l calls) (simp_all add: logged_simps)

lemma length_fold_simulate_day:
  "length (snd (fold (simulate_day ops agent self use_llm strategy data) (enumerate n ds) (l, rs)))
     = length rs + length ds"
  by (induction ds arbitrary: n l rs)
     (simp_all add: simulate_day_def record_daily_result_def Let_def)

text \<open>
  C2. Under the buy-and-hold strategy the only calls the simulation loop makes on the
  ledger are the mark-to-market calls, one per trading date: no buy is issued on the
  first rebalance opportunity, nor on any later one. A daily run over two dates on a fresh
  ledger of 10000 ends with that ledger untouched: all cash, no position, no trade.
\<close>

theorem buy_and_hold_calls:
  "snd (fst (simulation_loop (logged ops) agent self use_llm ''buy_and_hold'' data trading_dates
               ((l, calls), rs))) =
     calls @ map (\<lambda>d. UpdatePrices (get_prices_for_date data d)) trading_dates
   \<and> fst (simulation_loop paper_ops no_agent (spy_engine 0 10 ''daily'') False ''buy_and_hold''
            [(''SPY'', [(0, 100), (1, 101)])] [0, 1] (new_paper 10000, []))
       = new_paper 10000"
proof
  show "snd (fst (simulation_loop (logged ops) agent self use_llm ''buy_and_hold'' data
                    trading_dates ((l, calls), rs))) =
     calls @ map (\<lambda>d. UpdatePrices (get_prices_for_date data d)) trading_dates"
    by (simp add: simulation_loop_def fold_simulate_day_idle fold_logged_update_prices)
next
  have "fst (simulation_loop paper_ops no_agent (spy_engine 0 10 ''daily'') False ''buy_and_hold''
            [(''SPY'', [(0, 100), (1, 101)])] [0, 1] (new_paper 10000, []))
      = fold (\<lambda>d. update_prices paper_ops (get_prices_for_date [(''SPY'', [(0, 100), (1, 101)])] d))
          [0, 1] (new_paper 10000)"
    unfolding simulation_loop_def by (rule fold_simulate_day_idle) simp
  also have "\<dots> = new_paper 10000"
    by (simp add: paper_ops_def paper_update_prices_def new_paper_def)
  finally show "fst (simulation_loop paper_ops no_agent (spy_engine 0 10 ''daily'') False
            ''buy_and_hold'' [(''SPY'', [(0, 100), (1, 101)])] [0, 1] (new_paper 10000, []))
       = new_paper 10000" .
qed

lemma fold_update_prices_positions:
  assumes "\<forall>ps l'. positions ops l' = [] \<longrightarrow> positions ops (update_prices ops ps l') = []"
    and "positions ops l = []"
  shows "positions ops (fold (\<lambda>d. update_prices ops (f d)) ds l) = []"
  using assms(2) by (induction ds arbitrary: l) (simp_all add: assms(1))

text \<open>
  C10. With a rebalance frequency other than daily and weekly no day is a rebalance
  opportunity; whatever the strategy, the ledger a run ends with is the initial one
  marked to market once per trading date, and it holds no position if it held none at
  the start and marking to market opens none.
\<close>

theorem unrecognised_frequency:
  assumes "rebalance_frequency self \<noteq> ''daily''" and "rebalance_frequency self \<noteq> ''weekly''"
  shows "\<not> should_rebalance self i d
    \<and> fst (simulation_loop ops agent self use_llm strategy data trading_dates (l, rs)) =
        fold (\<lambda>d. update_prices ops (get_prices_for_date data d)) trading_dates l
    \<and> ((\<forall>ps l'. positions ops l' = [] \<longrightarrow> positions ops (update_prices ops ps l') = [])
        \<and> positions ops l = []
        \<longrightarrow> positions ops
              (fst (simulation_loop ops agent self use_llm strategy data trading_dates (l, rs)))
            = [])"
proof -
  from assms have idle: "\<forall>i d. \<not> should_rebalance self i d"
    by (simp add: should_rebalance_def)
  then have loop: "fst (simulation_loop ops agent self use_llm strategy data trading_dates (l, rs)) =
        fold (\<lambda>d. update_prices ops (get_prices_for_date data d)) trading_dates l"
    by (simp add: simulation_loop_def fold_simulate_day_idle)
  show ?thesis
    using idle loop by (simp add: fold_update_prices_positions)
qed

theorem unrecognised_frequency_witness:
  "rebalance_frequency (spy_engine 0 10 ''monthly'') \<noteq> ''daily''
   \<and> rebalance_frequency (spy_engine 0 10 ''monthly'') \<noteq> ''weekly''
   \<and> \<not> should_rebalance (spy_engine 0 10 ''monthly'') 0 0
   \<and> positions paper_ops
        (fst (simulation_loop paper_ops no_agent (spy_engine 0 10 ''monthly'') False
                ''equal_weight'' [(''SPY'', [(0, 100), (1, 101)])] [0, 1]
                (new_paper 10000, []))) = []"
proof -
  have f1: "rebalance_frequency (spy_engine 0 10 ''monthly'') \<noteq> ''daily''"
    and f2: "rebalance_frequency (spy_engine 0 10 ''monthly'') \<noteq> ''weekly''"
    by (simp_all add: BacktestEngine_def)
  have marking: "\<forall>ps l'. positions paper_ops l' = []
      \<longrightarrow> positions paper_ops (update_prices paper_ops ps l') = []"
    by (simp add: paper_ops_def paper_update_prices_def)
  have fresh: "positions paper_ops (new_paper 10000) = []"
    by (simp add: paper_ops_def new_paper_def)
  from unrecognised_frequency [OF f1 f2, of 0 0 paper_ops no_agent False "''equal_weight''"
         "[(''SPY'', [(0, 100), (1, 101)])]" "[0, 1]" "new_paper 10000" "[]"]
    f1 f2 marking fresh
  show ?thesis by blast
qed


section \<open>A window without trading dates\<close>

lemma set_dict_set: "set (dict_set k v kvs) \<subseteq> insert (k, v) (set kvs)"
  by (induction k v kvs rule: dict_set.induct) auto

lemma fold_window_filter_rows:
  assumes "\<And>t df. (t, df) \<in> set acc \<Longrightarrow> df \<noteq> [] \<and> (\<forall>row \<in> set df. in_window self (fst row))"
    and "(t, df) \<in> set (fold (\<lambda>(ticker, df) filtered_data.
                 let df' = filter (\<lambda>(d, c). in_window self d) df
                 in if df' \<noteq> [] then dict_set ticker df' filtered_data else filtered_data)
           data acc)"
  shows "df \<noteq> [] \<and> (\<forall>row \<in> set df. in_window self (fst row))"
  using assms
proof (induction data arbitrary: acc)
  case Nil
  then show ?case by simp
next
  case (Cons x data)
  obtain t0 df0 where x: "x = (t0, df0)" by (cases x)
  let ?df' = "filter (\<lambda>(d, c). in_window self d) df0"
  show ?case
  proof (cases "?df' = []")
    case True
    with Cons.prems have "(t, df) \<in> set (fold (\<lambda>(ticker, df) filtered_data.
                 let df' = filter (\<lambda>(d, c). in_window self d) df
                 in if df' \<noteq> [] then dict_set ticker df' filtered_data else filtered_data)
           data acc)"
      by (simp add: x)
    with Cons.IH [of acc] Cons.prems(1) show ?thesis by blast
  next
    case False
    have good: "df1 \<noteq> [] \<and> (\<forall>row \<in> set df1. in_window self (fst row))"
      if "(t1, df1) \<in> set (dict_set t0 ?df' acc)" for t1 df1
    proof -
      from that set_dict_set [of t0 ?df' acc]
      have "(t1, df1) = (t0, ?df') \<or> (t1, df1) \<in> set acc" by auto
      then show ?thesis
      proof
        assume "(t1, df1) = (t0, ?df')"
        with False show ?thesis by auto
      next
        assume "(t1, df1) \<in> set acc"
        then show ?thesis by (rule Cons.prems(1))
      qed
    qed
    from Cons.prems(2) False
    have "(t, df) \<in> set (fold (\<lambda>(ticker, df) filtered_data.
                 let df' = filter (\<lambda>(d, c). in_window self d) df
                 in if df' \<noteq> [] then dict_set ticker df' filtered_data else filtered_data)
           data (dict_set t0 ?df' acc))"
      by (simp add: x)
    with Cons.IH [of "dict_set t0 ?df' acc"] good show ?thesis by blast
  qed
qed

lemma engine_fetch_rows:
  assumes "(t, df) \<in> set (engine_fetch_historical_data all_tickers history self)"
  shows "df \<noteq> [] \<and> (\<forall>row \<in> set df. in_window self (fst row))"
proof (rule fold_window_filter_rows)
  show "(t, df) \<in> set (fold (\<lambda>(ticker, df) filtered_data.
                 let df' = filter (\<lambda>(d, c). in_window self d) df
                 in if df' \<noteq> [] then dict_set ticker df' filtered_data else filtered_data)
           (fetch_historical_data all_tickers history (Some (tickers self))
              ((end_date self - start_date self) + 60) ''1d'') [])"
    using assms by (simp add: engine_fetch_historical_data_def Let_def)
qed simp

lemma trading_dates_of_fetched:
  assumes "engine_fetch_historical_data all_tickers history self = (t, df) # rest"
  shows "get_trading_dates self ((t, df) # rest) = Inr (map fst df) \<and> df \<noteq> []"
proof -
  from engine_fetch_rows [of t df all_tickers history self] assms
  have "df \<noteq> []" and "\<forall>row \<in> set df. in_window self (fst row)"
    by auto
  then show ?thesis by (simp add: get_trading_dates_def)
qed

text \<open>
  C1. When a run has no trading date (the calendar builder yields none on the data of
  the run, be it that no data survived the fetch), \<^verbatim>\<open>run_backtest\<close> returns the
  empty dictionary and leaves the engine as it was: no ledger is built, no day is
  simulated, no metric is computed and nothing is raised. (The calendar is read from the
  first ticker that has a row inside the window, so it is empty only when no ticker has
  one, which is the case the test on the fetched data catches.)
\<close>

theorem run_backtest_no_trading_dates:
  assumes "case get_trading_dates self (engine_fetch_historical_data all_tickers history self) of
             Inl e \<Rightarrow> True | Inr trading_dates \<Rightarrow> trading_dates = []"
  shows "run_backtest ops new_portfolio all_tickers history agent self use_llm strategy benchmark
           = Inr (None, self)"
proof (cases "engine_fetch_historical_data all_tickers history self")
  case Nil
  then show ?thesis by (simp add: run_backtest_def backtest_on_data_def)
next
  case (Cons x rest)
  obtain t df where "x = (t, df)" by (cases x)
  with Cons trading_dates_of_fetched [of all_tickers history self t df rest] assms
  show ?thesis by simp
qed

theorem run_backtest_no_trading_dates_witness:
  "(case get_trading_dates (spy_engine 10 20 ''daily'')
           (engine_fetch_historical_data [] (\<lambda>t p i. Inr [(1, 100)])
              (spy_engine 10 20 ''daily'')) of
      Inl e \<Rightarrow> True | Inr trading_dates \<Rightarrow> trading_dates = [])
   \<and> run_backtest paper_ops (\<lambda>s d. new_paper 10000) [] (\<lambda>t p i. Inr [(1, 100)])
         no_agent (spy_engine 10 20 ''daily'') False ''equal_weight'' ''SPY''
       = Inr (None, spy_engine 10 20 ''daily'')"
proof -
  have fetched: "engine_fetch_historical_data [] (\<lambda>t p i. Inr [(1, 100)])
      (spy_engine 10 20 ''daily'') = []"
    by (simp add: engine_fetch_historical_data_def fetch_historical_data_def BacktestEngine_def
          in_window_def)
  then have no_dates:
    "case get_trading_dates (spy_engine 10 20 ''daily'')
           (engine_fetch_historical_data [] (\<lambda>t p i. Inr [(1, 100)])
              (spy_engine 10 20 ''daily'')) of
      Inl e \<Rightarrow> True | Inr trading_dates \<Rightarrow> trading_dates = []"
    by (simp add: get_trading_dates_def)
  from run_backtest_no_trading_dates [OF no_dates] no_dates show ?thesis
    by simp
qed


text \<open>The exceptions of the metrics engine, and of a whole run: the lookups of
  \<^verbatim>\<open>run_backtest\<close> in the metrics dictionary and in the list of tickers never fail.\<close>

lemma py_div_Inl: "py_div a b = Inl e \<Longrightarrow> e = ZeroDivisionError"
  by (simp add: py_div_def split: if_splits)

lemma py_pow_Inl: "py_pow b x = Inl e \<Longrightarrow> e = OverflowError"
  by (simp add: py_pow_def Let_def split: if_splits)

lemma sequence_Inl:
  "sequence xs = Inl e \<Longrightarrow> Inl e \<in> set xs"
  by (induction xs) (auto split: sum.splits)

lemma sequence_Inr_length: "sequence xs = Inr vs \<Longrightarrow> length vs = length xs"
  by (induction xs arbitrary: vs) (auto split: sum.splits)

lemma step_returns_Inl: "step_returns vs = Inl e \<Longrightarrow> e = ZeroDivisionError"
  by (auto simp: step_returns_def dest!: sequence_Inl py_div_Inl [OF sym])

lemma drawdown_loop_Inl:
  "drawdown_loop vs peak max_dd dds = Inl e \<Longrightarrow> e = ZeroDivisionError"
  by (induction vs peak max_dd dds rule: drawdown_loop.induct)
     (auto simp: Let_def py_div_def split: sum.splits if_splits)

lemma calculate_metrics_cases:
  "calculate_metrics ops self bench = res \<Longrightarrow>
     (res = Inr None \<and> results self = [])
   \<or> (res = Inl ZeroDivisionError \<and> results self \<noteq> [])
   \<or> (res = Inl OverflowError \<and> results self \<noteq> [])
   \<or> (res = Inl AttributeError \<and> results self \<noteq> [] \<and> portfolio self = None)
   \<or> (\<exists>m. res = Inr (Some m) \<and> results self \<noteq> [])"
  unfolding calculate_metrics_def Let_def
  by (auto split: sum.splits option.splits prod.splits if_splits
           dest: step_returns_Inl py_div_Inl py_pow_Inl drawdown_loop_Inl)

lemma run_backtest_no_lookup_error:
  "run_backtest ops new_portfolio all_tickers history agent self use_llm strategy benchmark
     \<notin> {Inl KeyError, Inl IndexError}"
proof (cases "engine_fetch_historical_data all_tickers history self")
  case Nil
  then show ?thesis by (simp add: run_backtest_def backtest_on_data_def)
next
  case (Cons x rest)
  obtain t df where x: "x = (t, df)" by (cases x)
  from Cons x trading_dates_of_fetched [of all_tickers history self t df rest]
  have dates: "get_trading_dates self (x # rest) = Inr (map fst df)" and df: "df \<noteq> []"
    by simp_all
  obtain l rs where loop:
    "simulation_loop ops agent self use_llm strategy (x # rest) (map fst df)
       (new_portfolio strategy (start_date self), results self) = (l, rs)"
    by (cases "simulation_loop ops agent self use_llm strategy (x # rest) (map fst df)
       (new_portfolio strategy (start_date self), results self)")
  from length_fold_simulate_day [of ops agent self use_llm strategy "x # rest" 0 "map fst df"
         "new_portfolio strategy (start_date self)" "results self"] loop df
  have rs: "rs \<noteq> []"
    by (auto simp: simulation_loop_def)
  let ?self' = "self\<lparr>portfolio := Some l, results := rs\<rparr>"
  from calculate_metrics_cases [OF refl, of ops ?self'
          "Some (get_benchmark_returns ?self' (x # rest) benchmark)"] rs
  have "calculate_metrics ops ?self' (Some (get_benchmark_returns ?self' (x # rest) benchmark))
          \<in> {Inl ZeroDivisionError, Inl OverflowError}
        \<or> (\<exists>m. calculate_metrics ops ?self'
                  (Some (get_benchmark_returns ?self' (x # rest) benchmark)) = Inr (Some m))"
    by auto
  then show ?thesis
    using Cons dates loop
    by (auto simp: run_backtest_def backtest_on_data_def Let_def)
qed



text \<open>The lookup \<^verbatim>\<open>metrics["total_return"]\<close> would fail on the empty metrics of an
  empty calendar: the body of \<^verbatim>\<open>run_backtest\<close> raises \<^verbatim>\<open>KeyError\<close> on data whose
  first frame has no row inside the window. The window filter of
  \<^verbatim>\<open>fetch_historical_data\<close> never hands it such data.\<close>

lemma backtest_on_unfiltered_data:
  "backtest_on_data paper_ops (\<lambda>s d. new_paper 10000) no_agent (spy_engine 10 20 ''daily'')
     False ''equal_weight'' ''SPY'' [(''SPY'', [(1, 100)])] = Inl KeyError"
  by (simp add: backtest_on_data_def get_trading_dates_def in_window_def BacktestEngine_def
        simulation_loop_def calculate_metrics_def)

section \<open>Rebalance cadence\<close>

text \<open>
  C7. A day index is a rebalance opportunity exactly when the frequency is daily, or the
  frequency is weekly and the index is a multiple of five; among the first twelve day
  indices the weekly opportunities are 0, 5 and 10.
\<close>

theorem should_rebalance_iff:
  "should_rebalance self i d =
     (rebalance_frequency self = ''daily''
      \<or> (rebalance_frequency self = ''weekly'' \<and> i mod 5 = 0))
   \<and> filter (\<lambda>i. should_rebalance (self\<lparr>rebalance_frequency := ''weekly''\<rparr>) i d) [0..<12]
       = [0, 5, 10]"
proof
  show "should_rebalance self i d =
     (rebalance_frequency self = ''daily''
      \<or> (rebalance_frequency self = ''weekly'' \<and> i mod 5 = 0))"
    by (simp add: should_rebalance_def)
next
  have "[0..<12] = [0, 1, 2, 3, 4, 5, 6, 7, 8, 9, 10, 11::nat]"
    by (simp add: upt_rec)
  then show "filter (\<lambda>i. should_rebalance (self\<lparr>rebalance_frequency := ''weekly''\<rparr>) i d)
      [0..<12] = [0, 5, 10]"
    by (simp add: should_rebalance_def)
qed

section \<open>The metrics report\<close>


lemma calculate_metrics_shape:
  assumes "calculate_metrics ops self bench = Inr (Some m)"
  obtains returns growth p max_dd dds l where
    "results self \<noteq> []"
    "step_returns (map total_value (results self)) = Inr returns"
    "py_div (last (map total_value (results self))) (initial_capital self) = Inr growth"
    "py_pow growth (365 / real (length (results self))) = Inr p"
    "drawdown_loop (map total_value (results self)) (initial_capital self) 0 []
       = Inr (max_dd, dds)"
    "portfolio self = Some l"
    "m = metrics_report (map total_value (results self)) returns (growth - 1) (p - 1)
           max_dd dds (length (trades ops l)) bench"
  using assms
  unfolding calculate_metrics_def
  by (auto simp: Let_def split: sum.splits option.splits prod.splits if_splits)

lemma calculate_metrics_SomeD:
  assumes "calculate_metrics ops self bench = Inr (Some m)"
  shows "results self \<noteq> []"
    and "equity_curve m = map total_value (results self)"
    and "step_returns (equity_curve m) = Inr (daily_returns m)"
    and "py_div (last (equity_curve m)) (initial_capital self) = Inr (total_return m + 1)"
    and "py_pow (1 + total_return m) (365 / real (length (results self)))
           = Inr (annualized_return m + 1)"
    and "drawdown_loop (equity_curve m) (initial_capital self) 0 []
           = Inr (max_drawdown m, drawdown_curve m)"
    and "volatility m =
           (if daily_returns m \<noteq> [] then np_std (daily_returns m) * sqrt 252 else 0)"
    and "sharpe_ratio m =
           (if volatility m > 0 then (annualized_return m - 0.02) / volatility m else 0)"
    and "calmar_ratio m =
           (if max_drawdown m > 0 then annualized_return m / max_drawdown m else 0)"
    and "omega_ratio m =
           (if sum_list (map abs (filter (\<lambda>r. r < 0) (daily_returns m))) > 0
            then Finite (sum_list (filter (\<lambda>r. r > 0) (daily_returns m))
                         / sum_list (map abs (filter (\<lambda>r. r < 0) (daily_returns m))))
            else Infinity)"
    and "profit_factor m = omega_ratio m"
    and "win_rate m =
           (if daily_returns m \<noteq> []
            then real (length (filter (\<lambda>r. r > 0) (daily_returns m)))
                   / real (length (daily_returns m))
            else 0)"
    and "sortino_ratio m =
           (if filter (\<lambda>r. r < 0) (daily_returns m) \<noteq> []
               \<and> np_std (filter (\<lambda>r. r < 0) (daily_returns m)) * sqrt 252 > 0
            then (annualized_return m - 0.02)
                   / (np_std (filter (\<lambda>r. r < 0) (daily_returns m)) * sqrt 252)
            else 0)"
    and "beta m = fst (beta_alpha (daily_returns m) bench (annualized_return m) 0.02)"
    and "alpha m = snd (beta_alpha (daily_returns m) bench (annualized_return m) 0.02)"
proof -
  from assms obtain returns growth p max_dd dds l where
    ne: "results self \<noteq> []"
    and R: "step_returns (map total_value (results self)) = Inr returns"
    and g: "py_div (last (map total_value (results self))) (initial_capital self) = Inr growth"
    and p: "py_pow growth (365 / real (length (results self))) = Inr p"
    and d: "drawdown_loop (map total_value (results self)) (initial_capital self) 0 []
       = Inr (max_dd, dds)"
    and m: "m = metrics_report (map total_value (results self)) returns (growth - 1) (p - 1)
           max_dd dds (length (trades ops l)) bench"
    by (rule calculate_metrics_shape)
  show "results self \<noteq> []" by (rule ne)
  show "equity_curve m = map total_value (results self)"
    by (simp add: m metrics_report_def Let_def)
  show "step_returns (equity_curve m) = Inr (daily_returns m)"
    using R by (simp add: m metrics_report_def Let_def)
  show "py_div (last (equity_curve m)) (initial_capital self) = Inr (total_return m + 1)"
    using g by (simp add: m metrics_report_def Let_def)
  show "py_pow (1 + total_return m) (365 / real (length (results self)))
           = Inr (annualized_return m + 1)"
    using p by (simp add: m metrics_report_def Let_def)
  show "drawdown_loop (equity_curve m) (initial_capital self) 0 []
           = Inr (max_drawdown m, drawdown_curve m)"
    using d by (simp add: m metrics_report_def Let_def)
  show "volatility m =
           (if daily_returns m \<noteq> [] then np_std (daily_returns m) * sqrt 252 else 0)"
    by (simp add: m metrics_report_def Let_def)
  show "sharpe_ratio m =
           (if volatility m > 0 then (annualized_return m - 0.02) / volatility m else 0)"
    by (simp add: m metrics_report_def Let_def)
  show "calmar_ratio m =
           (if max_drawdown m > 0 then annualized_return m / max_drawdown m else 0)"
    by (simp add: m metrics_report_def Let_def)
  show "omega_ratio m =
           (if sum_list (map abs (filter (\<lambda>r. r < 0) (daily_returns m))) > 0
            then Finite (sum_list (filter (\<lambda>r. r > 0) (daily_returns m))
                         / sum_list (map abs (filter (\<lambda>r. r < 0) (daily_returns m))))
            else Infinity)"
    by (simp add: m metrics_report_def Let_def)
  show "profit_factor m = omega_ratio m"
    by (simp add: m metrics_report_def Let_def)
  show "win_rate m =
           (if daily_returns m \<noteq> []
            then real (length (filter (\<lambda>r. r > 0) (daily_returns m)))
                   / real (length (daily_returns m))
            else 0)"
    by (simp add: m metrics_report_def Let_def)
  show "sortino_ratio m =
           (if filter (\<lambda>r. r < 0) (daily_returns m) \<noteq> []
               \<and> np_std (filter (\<lambda>r. r < 0) (daily_returns m)) * sqrt 252 > 0
            then (annualized_return m - 0.02)
                   / (np_std (filter (\<lambda>r. r < 0) (daily_returns m)) * sqrt 252)
            else 0)"
    by (simp add: m metrics_report_def Let_def)
  show "beta m = fst (beta_alpha (daily_returns m) bench (annualized_return m) 0.02)"
    by (simp add: m metrics_report_def Let_def)
  show "alpha m = snd (beta_alpha (daily_returns m) bench (annualized_return m) 0.02)"
    by (simp add: m metrics_report_def Let_def)
qed

lemma calculate_metrics_SomeI:
  assumes "results self \<noteq> []"
    and "step_returns (map total_value (results self)) = Inr returns"
    and "py_div (last (map total_value (results self))) (initial_capital self) = Inr growth"
    and "py_pow growth (365 / real (length (results self))) = Inr p"
    and "drawdown_loop (map total_value (results self)) (initial_capital self) 0 []
           = Inr (max_dd, dds)"
    and "portfolio self = Some l"
  shows "\<exists>m. calculate_metrics ops self bench = Inr (Some m)"
  using assms
  unfolding calculate_metrics_def Let_def
  by simp


lemma Max_insert_insert:
  "finite S \<Longrightarrow> Max (insert a (insert b S)) = Max (insert (max a b) S)"
  by (cases "S = {}") (simp_all add: max.assoc)

lemma spec_peak_0: "spec_peak c (v # rest) 0 = max c v"
  by (simp add: spec_peak_def)

lemma spec_peak_Suc: "spec_peak c (v # rest) (Suc i) = spec_peak (max c v) rest i"
proof -
  have "set (take (Suc (Suc i)) (v # rest)) = insert v (set (take (Suc i) rest))"
    by simp
  then show ?thesis
    unfolding spec_peak_def by (simp only: Max_insert_insert [OF finite_set])
qed

lemma spec_drawdown_Suc:
  "spec_drawdown c (v # rest) (Suc i) = spec_drawdown (max c v) rest i"
  by (simp add: spec_drawdown_def spec_peak_Suc)

lemma spec_peak_ge:
  assumes "i < length V"
  shows "V ! i \<le> spec_peak c V i"
proof -
  from assms have "V ! i \<in> set (take (Suc i) V)"
    by (metis in_set_conv_nth length_take lessI min_less_iff_conj nth_take)
  then show ?thesis by (simp add: spec_peak_def)
qed

lemma spec_drawdown_bounds:
  assumes "i < length V" and "0 < V ! i"
  shows "0 \<le> spec_drawdown c V i \<and> spec_drawdown c V i \<le> 1"
proof -
  from spec_peak_ge [OF assms(1), of c] assms(2)
  have "V ! i \<le> spec_peak c V i" and "0 < spec_peak c V i" by auto
  with assms(2) show ?thesis by (simp add: spec_drawdown_def)
qed

lemma drawdown_loop_positive:
  assumes "\<forall>v \<in> set vs. 0 < v"
  shows "drawdown_loop vs peak max_dd dds =
           Inr (fold (\<lambda>d m. max m d) (map (spec_drawdown peak vs) [0..<length vs]) max_dd,
                dds @ map (spec_drawdown peak vs) [0..<length vs])"
  using assms
proof (induction vs arbitrary: peak max_dd dds)
  case Nil
  show ?case by simp
next
  case (Cons v rest)
  let ?peak' = "if v > peak then v else peak"
  have peak': "?peak' = max peak v" by (simp add: max_def)
  from Cons.prems have v: "0 < v" and rest: "\<forall>x \<in> set rest. 0 < x" by simp_all
  from v have nz: "max peak v \<noteq> 0" by (simp add: max_def)
  have d0: "spec_drawdown peak (v # rest) 0 = (max peak v - v) / max peak v"
    by (simp add: spec_drawdown_def spec_peak_0)
  have curve: "map (spec_drawdown peak (v # rest)) [0..<Suc (length rest)] =
      (max peak v - v) / max peak v # map (spec_drawdown (max peak v) rest) [0..<length rest]"
    by (simp add: map_upt_Suc d0 spec_drawdown_Suc del: upt_Suc)
  show ?case
    using Cons.IH [OF rest, of "max peak v" "max max_dd ((max peak v - v) / max peak v)"
                     "dds @ [(max peak v - v) / max peak v]"] nz
    by (simp add: peak' py_div_def curve Let_def del: upt_Suc)
qed

lemma fold_max_Max: "fold (\<lambda>d m. max m d) ds (a::real) = Max (insert a (set ds))"
proof -
  have "(\<lambda>d m. max m d) = (max :: real \<Rightarrow> real \<Rightarrow> real)"
    by (intro ext) (simp add: max.commute)
  then have "fold (\<lambda>d m. max m d) ds a = fold max ds a" by simp
  also have "\<dots> = Max (set (a # ds))" by (rule Max.set_eq_fold [symmetric])
  finally show ?thesis by simp
qed

lemma Max_insert_0:
  assumes "ds \<noteq> []" and "\<forall>d \<in> set ds. (0::real) \<le> d"
  shows "Max (insert 0 (set ds)) = Max (set ds)"
proof -
  from assms have "0 \<le> Max (set ds)"
    by (metis List.finite_set Max_ge_iff empty_iff hd_in_set)
  with assms(1) show ?thesis by (simp add: max_def)
qed

lemma negative_sum_pos_iff:
  "0 < sum_list (map abs (filter (\<lambda>r. r < 0) R)) \<longleftrightarrow> (\<exists>r \<in> set R. r < (0::real))"
proof
  assume "0 < sum_list (map abs (filter (\<lambda>r. r < 0) R))"
  then have "filter (\<lambda>r. r < 0) R \<noteq> []" by auto
  then show "\<exists>r \<in> set R. r < 0" by (auto simp: filter_empty_conv)
next
  assume "\<exists>r \<in> set R. r < 0"
  then show "0 < sum_list (map abs (filter (\<lambda>r. r < 0) R))"
  proof (induction R)
    case Nil
    then show ?case by simp
  next
    case (Cons x R)
    have nonneg: "0 \<le> sum_list (map abs (filter (\<lambda>r. r < 0) R))"
      by (rule sum_list_nonneg) auto
    show ?case
    proof (cases "x < 0")
      case True
      with nonneg show ?thesis by simp
    next
      case False
      with Cons show ?thesis by auto
    qed
  qed
qed

lemma step_returns_length: "step_returns V = Inr R \<Longrightarrow> length R = length V - 1"
  by (auto simp: step_returns_def dest: sequence_Inr_length)


lemma py_pow_one: "py_pow 1 e = Inr 1"
  by (simp add: py_pow_def)

lemma step_returns_positive:
  assumes "\<forall>v \<in> set V. v \<noteq> 0"
  shows "\<exists>R. step_returns V = Inr R"
proof -
  have "\<exists>vs. sequence (map (\<lambda>i. py_div (f i) (g i)) is) = Inr vs"
    if "\<forall>i \<in> set is. g i \<noteq> 0" for f g :: "nat \<Rightarrow> real" and "is" :: "nat list"
    using that by (induction "is") (auto simp: py_div_def)
  note seq = this [of "[1..<length V]" "\<lambda>i. V ! (i - 1)" "\<lambda>i. V ! i - V ! (i - 1)"]
  have "\<forall>i \<in> set [1..<length V]. V ! (i - 1) \<noteq> 0"
  proof
    fix i assume "i \<in> set [1..<length V]"
    then have "i - 1 < length V" by auto
    then have "V ! (i - 1) \<in> set V" by (rule nth_mem)
    with assms show "V ! (i - 1) \<noteq> 0" by blast
  qed
  from seq [OF this] show ?thesis by (simp add: step_returns_def)
qed

lemma calculate_metrics_total:
  assumes "results self \<noteq> []"
    and "\<forall>r \<in> set (results self). 0 < total_value r"
    and "0 < initial_capital self"
    and "last (map total_value (results self)) = initial_capital self"
    and "portfolio self = Some l"
  shows "\<exists>m. calculate_metrics ops self bench = Inr (Some m)"
proof -
  let ?V = "map total_value (results self)"
  from assms(2) have pos: "\<forall>v \<in> set ?V. 0 < v" by simp
  then have "\<forall>v \<in> set ?V. v \<noteq> 0" by fastforce
  then obtain R where R: "step_returns ?V = Inr R"
    using step_returns_positive by blast
  from assms(3,4) have g: "py_div (last ?V) (initial_capital self) = Inr 1"
    by (simp add: py_div_def)
  from drawdown_loop_positive [OF pos, of "initial_capital self" 0 "[]"]
  obtain max_dd dds where d: "drawdown_loop ?V (initial_capital self) 0 [] = Inr (max_dd, dds)"
    by blast
  show ?thesis
    by (rule calculate_metrics_SomeI [OF assms(1) R g py_pow_one d assms(5)])
qed


text \<open>
  C5. For a non-empty series of positive total values the drawdown loop returns, for
  every day, the drawdown (peak - V[i]) / peak against the running peak that starts at
  the initial capital (so the first peak is the larger of the initial capital and V[0]);
  the maximum drawdown is the maximum of that curve and lies between 0 and 1; the curve
  has one entry per day, and these are the curve and the maximum of the report.
\<close>

theorem drawdown_curve_correct:
  assumes "V \<noteq> []" and "\<forall>v \<in> set V. 0 < v"
  shows "drawdown_loop V c 0 [] =
           Inr (Max (set (map (spec_drawdown c V) [0..<length V])),
                map (spec_drawdown c V) [0..<length V])
    \<and> spec_peak c V 0 = max c (V ! 0)
    \<and> 0 \<le> Max (set (map (spec_drawdown c V) [0..<length V]))
    \<and> Max (set (map (spec_drawdown c V) [0..<length V])) \<le> 1
    \<and> (calculate_metrics ops self bench = Inr (Some m)
         \<and> map total_value (results self) = V \<and> initial_capital self = c
        \<longrightarrow> equity_curve m = V
            \<and> drawdown_curve m = map (spec_drawdown c V) [0..<length V]
            \<and> length (drawdown_curve m) = length (equity_curve m)
            \<and> max_drawdown m = Max (set (drawdown_curve m)))"
proof -
  let ?dds = "map (spec_drawdown c V) [0..<length V]"
  from assms(1) have dds_ne: "?dds \<noteq> []" by simp
  have bounds: "0 \<le> d \<and> d \<le> 1" if "d \<in> set ?dds" for d
  proof -
    from that obtain i where "i < length V" and "d = spec_drawdown c V i" by auto
    with assms(2) spec_drawdown_bounds [of i V c] show ?thesis by simp
  qed
  then have "\<forall>d \<in> set ?dds. 0 \<le> d" by blast
  with dds_ne have max0: "Max (insert 0 (set ?dds)) = Max (set ?dds)"
    by (rule Max_insert_0)
  have loop: "drawdown_loop V c 0 [] = Inr (Max (set ?dds), ?dds)"
    using drawdown_loop_positive [OF assms(2), of c 0 "[]"] max0
    by (simp add: fold_max_Max)
  from dds_ne have "Max (set ?dds) \<in> set ?dds" by (intro Max_in) simp_all
  then have range: "0 \<le> Max (set ?dds) \<and> Max (set ?dds) \<le> 1" by (rule bounds)
  from assms(1) have peak0: "spec_peak c V 0 = max c (V ! 0)"
    by (cases V) (simp_all add: spec_peak_0)
  have report: "equity_curve m = V \<and> drawdown_curve m = ?dds
      \<and> length (drawdown_curve m) = length (equity_curve m)
      \<and> max_drawdown m = Max (set (drawdown_curve m))"
    if "calculate_metrics ops self bench = Inr (Some m)"
      and "map total_value (results self) = V" and "initial_capital self = c"
  proof -
    from calculate_metrics_SomeD(2) [OF that(1)] that(2) have eq: "equity_curve m = V"
      by simp
    from calculate_metrics_SomeD(6) [OF that(1)] eq that(3)
    have "drawdown_loop V c 0 [] = Inr (max_drawdown m, drawdown_curve m)" by simp
    with loop have md: "max_drawdown m = Max (set ?dds)" and dc: "drawdown_curve m = ?dds"
      by simp_all
    from eq md dc show ?thesis by (simp del: set_map set_upt)
  qed
  from loop range peak0 report show ?thesis by blast
qed


theorem drawdown_curve_correct_witness:
  "[100, 120, 100] \<noteq> ([] :: real list)
   \<and> drawdown_loop [100, 120, 100] 100 0 [] = Inr (1 / 6, [0, 0, 1 / 6])
   \<and> (\<exists>m. calculate_metrics paper_ops
              (recorded 100 [day 100 0, day 120 1, day 100 2]) None = Inr (Some m)
          \<and> drawdown_curve m = [0, 0, 1 / 6] \<and> max_drawdown m = 1 / 6)"
proof -
  let ?V = "[100, 120, 100 :: real]"
  let ?self = "recorded 100 [day 100 0, day 120 1, day 100 2]"
  have ne: "?V \<noteq> []" and pos: "\<forall>v \<in> set ?V. 0 < v" by simp_all
  have upt: "[0..<length ?V] = [0, 1, 2]" by (simp add: upt_rec)
  have curve: "map (spec_drawdown 100 ?V) [0..<length ?V] = [0, 0, 1 / 6]"
    unfolding upt by (simp add: spec_drawdown_def spec_peak_def take_Suc_conv_app_nth)
  obtain m where m: "calculate_metrics paper_ops ?self None = Inr (Some m)"
    using calculate_metrics_total [of ?self "new_paper 10000" paper_ops None]
    by (auto simp: BacktestEngine_def)
  have V: "map total_value (results ?self) = ?V" and c: "initial_capital ?self = 100"
    by (simp_all add: BacktestEngine_def)
  note inst = drawdown_curve_correct [OF ne pos, of 100 paper_ops ?self None m]
  from inst have loop: "drawdown_loop ?V 100 0 [] =
      Inr (Max (set (map (spec_drawdown 100 ?V) [0..<length ?V])),
           map (spec_drawdown 100 ?V) [0..<length ?V])" by blast
  from inst m V c have rep: "drawdown_curve m = map (spec_drawdown 100 ?V) [0..<length ?V]
      \<and> max_drawdown m = Max (set (drawdown_curve m))" by blast
  from loop have "drawdown_loop ?V 100 0 [] = Inr (1 / 6, [0, 0, 1 / 6])"
    unfolding curve by simp
  moreover from rep have "drawdown_curve m = [0, 0, 1 / 6] \<and> max_drawdown m = 1 / 6"
    unfolding curve by simp
  ultimately show ?thesis using m by auto
qed


section \<open>The benchmark gate\<close>

lemma beta_alpha_gate_closed:
  "bench = None \<or> bench = Some [] \<or> (\<exists>bs. bench = Some bs \<and> length bs \<noteq> length R)
   \<Longrightarrow> beta_alpha R bench a rf = (0, 0)"
  by (auto simp: beta_alpha_def split: option.splits)

lemma beta_alpha_gate_open:
  "bs \<noteq> [] \<Longrightarrow> length bs = length R \<Longrightarrow>
   beta_alpha R (Some bs) a rf =
     ((if np_var bs > 0 then np_cov R bs / np_var bs else 0),
      a - (rf + (if np_var bs > 0 then np_cov R bs / np_var bs else 0)
                 * (np_mean bs * 252 - rf)))"
  by (simp add: beta_alpha_def Let_def)

text \<open>
  C3. In a report the return series has one entry less than the result list. Beta and
  alpha are both 0 whenever the benchmark series is absent, empty or of a length other
  than that of the return series (one more or one less included); when a non-empty
  benchmark series has exactly that length, beta is the covariance over the benchmark
  variance (0 if the variance is 0) and alpha the annualised return less the risk-free
  rate and beta times the benchmark excess return.
\<close>

theorem beta_alpha_gate:
  assumes "calculate_metrics ops self bench = Inr (Some m)"
  shows "length (daily_returns m) = length (results self) - 1
    \<and> ((bench = None \<or> bench = Some []
         \<or> (\<exists>bs. bench = Some bs \<and> length bs \<noteq> length (daily_returns m)))
        \<longrightarrow> beta m = 0 \<and> alpha m = 0)
    \<and> (\<forall>bs. bench = Some bs \<and> bs \<noteq> [] \<and> length bs = length (daily_returns m)
        \<longrightarrow> beta m = (if np_var bs > 0 then np_cov (daily_returns m) bs / np_var bs else 0)
            \<and> alpha m = annualized_return m
                          - (0.02 + beta m * (np_mean bs * 252 - 0.02)))"
proof -
  note D = calculate_metrics_SomeD [OF assms]
  from D(2,3) have len: "length (daily_returns m) = length (results self) - 1"
    by (simp add: step_returns_length)
  have closed: "beta m = 0 \<and> alpha m = 0"
    if "bench = None \<or> bench = Some []
         \<or> (\<exists>bs. bench = Some bs \<and> length bs \<noteq> length (daily_returns m))"
    using beta_alpha_gate_closed [OF that] D(14,15) by simp
  have "open": "beta m = (if np_var bs > 0 then np_cov (daily_returns m) bs / np_var bs else 0)
            \<and> alpha m = annualized_return m
                          - (0.02 + beta m * (np_mean bs * 252 - 0.02))"
    if "bench = Some bs \<and> bs \<noteq> [] \<and> length bs = length (daily_returns m)" for bs
    using that beta_alpha_gate_open [of bs "daily_returns m"] D(14,15) by simp
  from len closed "open" show ?thesis by blast
qed

theorem beta_alpha_gate_witness:
  "(\<exists>m. calculate_metrics paper_ops (recorded 100 [day 100 0, day 110 1, day 100 2])
           (Some [1 / 100]) = Inr (Some m)
        \<and> length (daily_returns m) = 2 \<and> beta m = 0 \<and> alpha m = 0)
   \<and> (\<exists>m. calculate_metrics paper_ops (recorded 100 [day 100 0, day 110 1, day 100 2])
           (Some [1 / 100, 3 / 100]) = Inr (Some m)
        \<and> beta m = (if np_var [1 / 100, 3 / 100] > 0
                    then np_cov (daily_returns m) [1 / 100, 3 / 100] / np_var [1 / 100, 3 / 100]
                    else 0))"
proof -
  let ?self = "recorded 100 [day 100 0, day 110 1, day 100 2]"
  have total: "\<exists>m. calculate_metrics paper_ops ?self bench = Inr (Some m)" for bench
    using calculate_metrics_total [of ?self "new_paper 10000" paper_ops bench]
    by (auto simp: BacktestEngine_def)
  from total obtain m where m: "calculate_metrics paper_ops ?self (Some [1 / 100]) = Inr (Some m)"
    by blast
  from beta_alpha_gate [OF m]
  have "length (daily_returns m) = 2 \<and> beta m = 0 \<and> alpha m = 0"
    by (auto simp: BacktestEngine_def)
  with m have first: "\<exists>m. calculate_metrics paper_ops ?self (Some [1 / 100]) = Inr (Some m)
        \<and> length (daily_returns m) = 2 \<and> beta m = 0 \<and> alpha m = 0"
    by blast
  from total obtain m' where
    m': "calculate_metrics paper_ops ?self (Some [1 / 100, 3 / 100]) = Inr (Some m')"
    by blast
  from beta_alpha_gate [OF m']
  have "beta m' = (if np_var [1 / 100, 3 / 100] > 0
                    then np_cov (daily_returns m') [1 / 100, 3 / 100] / np_var [1 / 100, 3 / 100]
                    else 0)"
    by (auto simp: BacktestEngine_def)
  with m' first show ?thesis by blast
qed


section \<open>Omega ratio and profit factor\<close>

text \<open>
  C6. For every return series the profit factor of the report equals its omega ratio:
  the sum of the positive returns over the sum of the absolute negative returns when some
  return is negative, and infinite otherwise. In a report of the engine both are infinite
  exactly when no return is negative.
\<close>

theorem profit_factor_is_omega_ratio:
  "profit_factor (metrics_report V R total_ret annualized max_dd dds n bench) =
     omega_ratio (metrics_report V R total_ret annualized max_dd dds n bench)
   \<and> omega_ratio (metrics_report V R total_ret annualized max_dd dds n bench) =
       (if \<exists>r \<in> set R. r < 0
        then Finite (sum_list (filter (\<lambda>r. r > 0) R) / sum_list (map abs (filter (\<lambda>r. r < 0) R)))
        else Infinity)
   \<and> (calculate_metrics ops self benchmark = Inr (Some m)
       \<longrightarrow> profit_factor m = omega_ratio m
           \<and> (omega_ratio m = Infinity \<longleftrightarrow> \<not> (\<exists>r \<in> set (daily_returns m). r < 0))
           \<and> (profit_factor m = Infinity \<longleftrightarrow> \<not> (\<exists>r \<in> set (daily_returns m). r < 0)))"
proof -
  have report: "profit_factor (metrics_report V R total_ret annualized max_dd dds n bench) =
     omega_ratio (metrics_report V R total_ret annualized max_dd dds n bench)"
    by (simp add: metrics_report_def Let_def)
  have omega: "omega_ratio (metrics_report V R total_ret annualized max_dd dds n bench) =
       (if \<exists>r \<in> set R. r < 0
        then Finite (sum_list (filter (\<lambda>r. r > 0) R) / sum_list (map abs (filter (\<lambda>r. r < 0) R)))
        else Infinity)"
    using negative_sum_pos_iff [of R] by (simp add: metrics_report_def Let_def)
  have engine: "profit_factor m = omega_ratio m
           \<and> (omega_ratio m = Infinity \<longleftrightarrow> \<not> (\<exists>r \<in> set (daily_returns m). r < 0))
           \<and> (profit_factor m = Infinity \<longleftrightarrow> \<not> (\<exists>r \<in> set (daily_returns m). r < 0))"
    if "calculate_metrics ops self benchmark = Inr (Some m)"
    using calculate_metrics_SomeD(10,11) [OF that] negative_sum_pos_iff [of "daily_returns m"]
    by simp
  from report omega engine show ?thesis by blast
qed

theorem profit_factor_is_omega_ratio_witness:
  "(\<exists>m. calculate_metrics paper_ops (recorded 100 [day 100 0, day 110 1, day 100 2]) None
           = Inr (Some m)
        \<and> (\<exists>r \<in> set (daily_returns m). r < 0)
        \<and> profit_factor m = omega_ratio m \<and> omega_ratio m \<noteq> Infinity)
   \<and> (\<exists>m. calculate_metrics paper_ops (recorded 110 [day 100 0, day 105 1, day 110 2]) None
           = Inr (Some m)
        \<and> \<not> (\<exists>r \<in> set (daily_returns m). r < 0)
        \<and> profit_factor m = Infinity \<and> omega_ratio m = Infinity)"
proof -
  let ?down = "recorded 100 [day 100 0, day 110 1, day 100 2]"
  let ?up = "recorded 110 [day 100 0, day 105 1, day 110 2]"
  have upt: "[1..<3] = [1, 2]" by (simp add: upt_rec)
  obtain m where m: "calculate_metrics paper_ops ?down None = Inr (Some m)"
    using calculate_metrics_total [of ?down "new_paper 10000" paper_ops None]
    by (auto simp: BacktestEngine_def)
  from calculate_metrics_SomeD(2,3) [OF m] have "daily_returns m = [1 / 10, - 1 / 11]"
    by (simp add: BacktestEngine_def step_returns_def py_div_def upt)
  then have loss: "\<exists>r \<in> set (daily_returns m). r < 0" by simp
  from profit_factor_is_omega_ratio [of _ _ _ _ _ _ _ _ paper_ops ?down None m] m loss
  have first: "profit_factor m = omega_ratio m \<and> omega_ratio m \<noteq> Infinity" by blast
  obtain m' where m': "calculate_metrics paper_ops ?up None = Inr (Some m')"
    using calculate_metrics_total [of ?up "new_paper 10000" paper_ops None]
    by (auto simp: BacktestEngine_def)
  from calculate_metrics_SomeD(2,3) [OF m'] have "daily_returns m' = [1 / 20, 1 / 21]"
    by (simp add: BacktestEngine_def step_returns_def py_div_def upt)
  then have no_loss: "\<not> (\<exists>r \<in> set (daily_returns m'). r < 0)" by simp
  from profit_factor_is_omega_ratio [of _ _ _ _ _ _ _ _ paper_ops ?up None m'] m' no_loss
  have second: "profit_factor m' = Infinity \<and> omega_ratio m' = Infinity" by blast
  from m loss first m' no_loss second show ?thesis by blast
qed

section \<open>A single trading date\<close>

text \<open>
  C8, as amended. For a result list of exactly one day, a positive initial capital, a
  ledger in place and a growth factor V[0] / initial\_capital whose 365th power is inside
  the float range, the metrics are computed without an exception: the return series is
  empty, volatility and Sharpe ratio are 0, as are the Sortino ratio, the win rate, beta and
  alpha; the omega ratio and the profit factor are infinite; the Calmar ratio is guarded
  by the maximum drawdown.
\<close>

theorem single_day_metrics:
  assumes "results self = [r]" and "0 < initial_capital self"
    and "\<bar>total_value r / initial_capital self\<bar> ^ 365 < 2 ^ 1024"
    and "portfolio self = Some l"
  shows "\<exists>m. calculate_metrics ops self bench = Inr (Some m)
    \<and> daily_returns m = [] \<and> volatility m = 0 \<and> sharpe_ratio m = 0
    \<and> sortino_ratio m = 0 \<and> win_rate m = 0
    \<and> omega_ratio m = Infinity \<and> profit_factor m = Infinity
    \<and> beta m = 0 \<and> alpha m = 0
    \<and> calmar_ratio m = (if max_drawdown m > 0 then annualized_return m / max_drawdown m else 0)
    \<and> total_return m = total_value r / initial_capital self - 1
    \<and> annualized_return m = (total_value r / initial_capital self) ^ 365 - 1"
proof -
  let ?v = "total_value r" and ?c = "initial_capital self"
  let ?peak = "if ?v > ?c then ?v else ?c"
  have R: "step_returns [?v] = Inr []" by (simp add: step_returns_def)
  from assms(2) have g: "py_div ?v ?c = Inr (?v / ?c)" by (simp add: py_div_def)
  from assms(3) have p: "py_pow (?v / ?c) 365 = Inr ((?v / ?c) ^ 365)"
    by (simp add: py_pow_def power_abs)
  from assms(2) have "?peak \<noteq> 0" by simp
  then have d: "drawdown_loop [?v] ?c 0 [] =
      Inr (max 0 ((?peak - ?v) / ?peak), [(?peak - ?v) / ?peak])"
    by (simp add: py_div_def Let_def)
  have gate: "beta_alpha [] bench a rf = (0, 0)" for a rf
    by (rule beta_alpha_gate_closed) (cases bench, auto)
  let ?m = "metrics_report [?v] [] (?v / ?c - 1) ((?v / ?c) ^ 365 - 1)
              (max 0 ((?peak - ?v) / ?peak)) [(?peak - ?v) / ?peak] (length (trades ops l)) bench"
  have m: "calculate_metrics ops self bench = Inr (Some ?m)"
    using assms(1,4) R g p d by (simp add: calculate_metrics_def)
  have fields: "daily_returns ?m = [] \<and> volatility ?m = 0 \<and> sharpe_ratio ?m = 0
    \<and> sortino_ratio ?m = 0 \<and> win_rate ?m = 0
    \<and> omega_ratio ?m = Infinity \<and> profit_factor ?m = Infinity
    \<and> beta ?m = 0 \<and> alpha ?m = 0
    \<and> calmar_ratio ?m = (if max_drawdown ?m > 0 then annualized_return ?m / max_drawdown ?m else 0)
    \<and> total_return ?m = ?v / ?c - 1
    \<and> annualized_return ?m = (?v / ?c) ^ 365 - 1"
    by (simp add: metrics_report_def Let_def gate)
  from m fields show ?thesis by blast
qed

theorem single_day_metrics_witness:
  "results (recorded 10000 [day 10000 0]) = [day 10000 0]
   \<and> 0 < initial_capital (recorded 10000 [day 10000 0])
   \<and> \<bar>total_value (day 10000 0) / initial_capital (recorded 10000 [day 10000 0])\<bar> ^ 365
       < (2::real) ^ 1024
   \<and> (\<exists>m. calculate_metrics paper_ops (recorded 10000 [day 10000 0]) (Some [1 / 100])
             = Inr (Some m)
          \<and> volatility m = 0 \<and> sharpe_ratio m = 0 \<and> total_return m = 0)"
proof -
  let ?self = "recorded 10000 [day 10000 0]"
  have h1: "results ?self = [day 10000 0]" and h2: "0 < initial_capital ?self"
    and h4: "portfolio ?self = Some (new_paper 10000)"
    by (simp_all add: BacktestEngine_def)
  have h3: "\<bar>total_value (day 10000 0) / initial_capital ?self\<bar> ^ 365 < (2::real) ^ 1024"
    by (simp add: BacktestEngine_def)
  from single_day_metrics [OF h1 h2 h3 h4, of paper_ops "Some [1 / 100]"]
  have "\<exists>m. calculate_metrics paper_ops ?self (Some [1 / 100]) = Inr (Some m)
          \<and> volatility m = 0 \<and> sharpe_ratio m = 0 \<and> total_return m = 0"
    by (auto simp: BacktestEngine_def)
  with h1 h2 h3 show ?thesis by blast
qed

text \<open>
  C8, as stated, fails: the division by the initial capital is not guarded, and with an
  initial capital of 0 a single day raises \<^verbatim>\<open>ZeroDivisionError\<close>; with an initial
  capital of 1000 and a total value of 10000 the power \<^verbatim>\<open>10.0 ** 365.0\<close> of the
  annualised return raises \<^verbatim>\<open>OverflowError\<close>.
\<close>

theorem single_day_metrics_counterexample:
  "calculate_metrics paper_ops (recorded 0 [day 10000 0]) None = Inl ZeroDivisionError
   \<and> calculate_metrics paper_ops (recorded 1000 [day 10000 0]) None = Inl OverflowError"
proof
  show "calculate_metrics paper_ops (recorded 0 [day 10000 0]) None = Inl ZeroDivisionError"
    by (simp add: calculate_metrics_def step_returns_def py_div_def BacktestEngine_def)
next
  have "py_pow 10 365 = Inl OverflowError"
    by (simp add: py_pow_def)
  then show "calculate_metrics paper_ops (recorded 1000 [day 10000 0]) None = Inl OverflowError"
    by (simp add: calculate_metrics_def step_returns_def py_div_def BacktestEngine_def)
qed



end
